theory Spec2Isabelle
  imports Complex_Main
begin

section \<open>JavaScript numbers, idealised\<close>

text \<open>
  The numeric core in \<^verbatim>\<open>src/services/physics.ts\<close> computes on JavaScript numbers.
  Rounding is left out: a number is an exact real, or \<open>NaN\<close> when an operation has no
  real result (\<open>0 / 0\<close>, the square root of a negative number, a remainder by zero).
  \<open>NaN\<close> is contagious in arithmetic and every comparison with it is false, as in
  JavaScript. A nonzero dividend over zero is an infinity in JavaScript; neither function
  reaches that case on real inputs (the path loop divides by \<open>points = 0\<close> only at
  \<open>j = 0\<close>, the light curve divides by half the duration only when it is positive), and
  the model has no value for it other than \<open>NaN\<close>.
\<close>

datatype number = NaN | Fin real

instantiation number :: "{plus, minus, times, uminus, ord}"
begin

fun plus_number :: "number \<Rightarrow> number \<Rightarrow> number" where
  "plus_number (Fin u) (Fin v) = Fin (u + v)"
| "plus_number _ _ = NaN"

fun minus_number :: "number \<Rightarrow> number \<Rightarrow> number" where
  "minus_number (Fin u) (Fin v) = Fin (u - v)"
| "minus_number _ _ = NaN"

fun times_number :: "number \<Rightarrow> number \<Rightarrow> number" where
  "times_number (Fin u) (Fin v) = Fin (u * v)"
| "times_number _ _ = NaN"

fun uminus_number :: "number \<Rightarrow> number" where
  "uminus_number (Fin u) = Fin (- u)"
| "uminus_number NaN = NaN"

fun less_number :: "number \<Rightarrow> number \<Rightarrow> bool" where
  "less_number (Fin u) (Fin v) = (u < v)"
| "less_number _ _ = False"

fun less_eq_number :: "number \<Rightarrow> number \<Rightarrow> bool" where
  "less_eq_number (Fin u) (Fin v) = (u \<le> v)"
| "less_eq_number _ _ = False"

instance ..

end

text \<open>The operator \<^verbatim>\<open>/\<close>.\<close>

fun js_div :: "number \<Rightarrow> number \<Rightarrow> number" where
  "js_div (Fin u) (Fin v) = (if v = 0 then NaN else Fin (u / v))"
| "js_div _ _ = NaN"

text \<open>
  The operator \<^verbatim>\<open>%\<close>: the remainder of the division truncated towards zero, which has
  the sign of the dividend.
\<close>

definition trunc :: "real \<Rightarrow> int" where
  "trunc q = (if 0 \<le> q then \<lfloor>q\<rfloor> else \<lceil>q\<rceil>)"

fun js_rem :: "number \<Rightarrow> number \<Rightarrow> number" where
  "js_rem (Fin u) (Fin v) = (if v = 0 then NaN else Fin (u - v * of_int (trunc (u / v))))"
| "js_rem _ _ = NaN"

fun Math_cos :: "number \<Rightarrow> number" where
  "Math_cos (Fin u) = Fin (cos u)"
| "Math_cos NaN = NaN"

fun Math_sin :: "number \<Rightarrow> number" where
  "Math_sin (Fin u) = Fin (sin u)"
| "Math_sin NaN = NaN"

fun Math_sqrt :: "number \<Rightarrow> number" where
  "Math_sqrt (Fin u) = (if u < 0 then NaN else Fin (sqrt u))"
| "Math_sqrt NaN = NaN"

fun Math_abs :: "number \<Rightarrow> number" where
  "Math_abs (Fin u) = Fin \<bar>u\<bar>"
| "Math_abs NaN = NaN"

definition Math_PI :: number where
  "Math_PI = Fin pi"

section \<open>The orbit path: \<^verbatim>\<open>calculateOrbitPath\<close>\<close>

text \<open>
  The interface \<^verbatim>\<open>OrbitalElements\<close> of the type declarations; the fields marked
  \<^verbatim>\<open>?\<close> are optional.
\<close>

record OrbitalElements =
  epoch :: "real option"
  e :: real
  a :: real
  i :: real
  om :: real
  w :: real
  ma :: real
  n :: "real option"
  per :: "real option"

type_synonym Point3D = "number \<times> number \<times> number"

text \<open>
  Lines 21 to 28: the rotation from perifocal to heliocentric ecliptic coordinates, as the
  source expands it.
\<close>

definition heliocentric :: "number \<Rightarrow> number \<Rightarrow> number \<Rightarrow> number \<Rightarrow> number \<Rightarrow> number \<times> number \<times> number" where
  "heliocentric wRad iRad omRad P Q =
    (let x = (Math_cos wRad * Math_cos omRad - Math_sin wRad * Math_sin omRad * Math_cos iRad) * P +
             (- Math_sin wRad * Math_cos omRad - Math_cos wRad * Math_sin omRad * Math_cos iRad) * Q;
         y = (Math_cos wRad * Math_sin omRad + Math_sin wRad * Math_cos omRad * Math_cos iRad) * P +
             (- Math_sin wRad * Math_sin omRad + Math_cos wRad * Math_cos omRad * Math_cos iRad) * Q;
         z = (Math_sin wRad * Math_sin iRad) * P +
             (Math_cos wRad * Math_sin iRad) * Q
     in (x, y, z))"

text \<open>The body of the loop, for the step \<open>j\<close>.\<close>

definition orbitPoint :: "OrbitalElements \<Rightarrow> int \<Rightarrow> int \<Rightarrow> Point3D" where
  "orbitPoint elements points j =
    (let d2r = js_div Math_PI (Fin 180);
         iRad = Fin (i elements) * d2r;
         omRad = Fin (om elements) * d2r;
         wRad = Fin (w elements) * d2r;
         E = js_div (Fin (of_int j)) (Fin (of_int points)) * Fin 2 * Math_PI;
         P = Fin (a elements) * (Math_cos E - Fin (e elements));
         Q = Fin (a elements) * Math_sqrt (Fin 1 - Fin (e elements) * Fin (e elements)) * Math_sin E;
         (x, y, z) = heliocentric wRad iRad omRad P Q;
         scale = Fin 10
     in (x * scale, z * scale, - y * scale))"

text \<open>
  \<^verbatim>\<open>for (let j = 0; j <= points; j++) { ... path.push(...) }\<close>, with \<open>points\<close> an
  integer (a caller that leaves it out gets 100).
\<close>

function path_loop :: "OrbitalElements \<Rightarrow> int \<Rightarrow> int \<Rightarrow> Point3D list \<Rightarrow> Point3D list" where
  "path_loop elements points j path =
    (if j \<le> points
     then path_loop elements points (j + 1) (path @ [orbitPoint elements points j])
     else path)"
  by pat_completeness auto
termination
  by (relation "measure (\<lambda>(elements, points, j, path). nat (points + 1 - j))") auto

declare path_loop.simps [simp del]

definition calculateOrbitPath :: "OrbitalElements \<Rightarrow> int \<Rightarrow> Point3D list" where
  "calculateOrbitPath elements points = path_loop elements points 0 []"

section \<open>The light curve: \<^verbatim>\<open>simulateLightCurve\<close>\<close>

record LightCurveSample =
  time :: number
  flux :: number

text \<open>
  \<^verbatim>\<open>Math.random()\<close> reads and advances a generator that belongs to the runtime, not to
  the caller. Its state is modelled by the sequence of values it is going to return, each
  in \<open>[0, 1)\<close>; a call returns the head and leaves the rest.
\<close>

type_synonym rng = "nat \<Rightarrow> real"

definition Math_random :: "rng \<Rightarrow> number \<times> rng" where
  "Math_random g = (Fin (g 0), (\<lambda>k. g (Suc k)))"

definition totalPoints :: nat where
  "totalPoints = 200"

text \<open>The body of the loop, for the step \<open>k\<close> and the value \<open>u\<close> drawn in it.\<close>

definition lightCurveStep :: "real \<Rightarrow> real \<Rightarrow> real \<Rightarrow> nat \<Rightarrow> number \<Rightarrow> LightCurveSample" where
  "lightCurveStep period depth durationHours k u =
    (let durationDays = js_div (Fin durationHours) (Fin 24);
         totalTime = Fin period * Fin 2;
         time = js_div (Fin (of_nat k)) (Fin (of_nat totalPoints)) * totalTime;
         flux = Fin 1;
         timeInPeriod = js_rem time (Fin period);
         transitCenter = js_div (Fin period) (Fin 2);
         flux =
           (if Math_abs (timeInPeriod - transitCenter) < js_div durationDays (Fin 2)
            then
              (let flux = Fin 1 - Fin depth;
                   distFromCenter = Math_abs (timeInPeriod - transitCenter)
               in flux + js_div distFromCenter (js_div durationDays (Fin 2)) * (Fin depth * Fin 0.1))
            else flux);
         flux = flux + (u - Fin 0.5) * Fin 0.0005
     in \<lparr>time = time, flux = flux\<rparr>)"

text \<open>\<^verbatim>\<open>for (let i = 0; i < totalPoints; i++) { ... data.push({ time, flux }) }\<close>\<close>

function lc_loop :: "real \<Rightarrow> real \<Rightarrow> real \<Rightarrow> nat \<Rightarrow> LightCurveSample list \<Rightarrow> rng \<Rightarrow> LightCurveSample list \<times> rng" where
  "lc_loop period depth durationHours k data g =
    (if k < totalPoints
     then (case Math_random g of
             (u, g') \<Rightarrow>
               lc_loop period depth durationHours (Suc k)
                 (data @ [lightCurveStep period depth durationHours k u]) g')
     else (data, g))"
  by pat_completeness auto
termination
  by (relation "measure (\<lambda>(period, depth, durationHours, k, data, g). totalPoints - k)") auto

declare lc_loop.simps [simp del]

definition simulateLightCurve :: "real \<Rightarrow> real \<Rightarrow> real \<Rightarrow> rng \<Rightarrow> LightCurveSample list \<times> rng" where
  "simulateLightCurve period depth durationHours g = lc_loop period depth durationHours 0 [] g"

section \<open>What the properties speak about\<close>

subsection \<open>Orbit path\<close>

text \<open>
  The elementary rotations of a vector about the third and about the first axis, and the
  3-1-3 Euler composition in the words of the specification: rotate by \<open>w\<close> about the
  normal of the orbital plane, then by \<open>i\<close> about the line of nodes, then by \<open>om\<close> about the
  reference pole. This is the specification's side of the comparison with
  \<open>heliocentric\<close>.
\<close>

type_synonym vec3 = "real \<times> real \<times> real"

fun rotate_z :: "real \<Rightarrow> vec3 \<Rightarrow> vec3" where
  "rotate_z t (x, y, z) = (cos t * x - sin t * y, sin t * x + cos t * y, z)"

fun rotate_x :: "real \<Rightarrow> vec3 \<Rightarrow> vec3" where
  "rotate_x t (x, y, z) = (x, cos t * y - sin t * z, sin t * y + cos t * z)"

definition euler313 :: "real \<Rightarrow> real \<Rightarrow> real \<Rightarrow> vec3 \<Rightarrow> vec3" where
  "euler313 wRad iRad omRad v = rotate_z omRad (rotate_x iRad (rotate_z wRad v))"

fun fin3 :: "vec3 \<Rightarrow> Point3D" where
  "fin3 (x, y, z) = (Fin x, Fin y, Fin z)"

text \<open>The Euclidean distance of a point from the origin, computed as the program would.\<close>

fun distanceFromOrigin :: "Point3D \<Rightarrow> number" where
  "distanceFromOrigin (x, y, z) = Math_sqrt (x * x + y * y + z * z)"

fun finite_point :: "Point3D \<Rightarrow> bool" where
  "finite_point (x, y, z) = (x \<noteq> NaN \<and> y \<noteq> NaN \<and> z \<noteq> NaN)"

text \<open>
  Numerical equality of two numbers, as \<^verbatim>\<open>===\<close> decides it: \<open>NaN\<close> is equal to nothing,
  itself included. Two points are numerically equal when their coordinates are.
\<close>

fun strict_eq :: "number \<Rightarrow> number \<Rightarrow> bool" where
  "strict_eq (Fin u) (Fin v) = (u = v)"
| "strict_eq _ _ = False"

fun point_eq :: "Point3D \<Rightarrow> Point3D \<Rightarrow> bool" where
  "point_eq (x, y, z) (x', y', z') = (strict_eq x x' \<and> strict_eq y y' \<and> strict_eq z z')"

text \<open>
  Three records of elements: the orbit of the Earth as \<^verbatim>\<open>OrbitViz3D.tsx\<close> passes it,
  the circle of radius 1 AU in the reference plane, and a hyperbolic orbit of eccentricity
  1.5.
\<close>

definition earthOrbit :: OrbitalElements where
  "earthOrbit = \<lparr>epoch = None, e = 0.0167, a = 1, i = 0, om = 0, w = 102, ma = 0, n = None, per = None\<rparr>"

definition unitCircle :: OrbitalElements where
  "unitCircle = \<lparr>epoch = None, e = 0, a = 1, i = 0, om = 0, w = 0, ma = 0, n = None, per = None\<rparr>"

definition hyperbola :: OrbitalElements where
  "hyperbola = \<lparr>epoch = None, e = 1.5, a = 1, i = 0, om = 0, w = 0, ma = 0, n = None, per = None\<rparr>"

subsection \<open>Light curve\<close>

text \<open>
  The locals of the loop body, as functions of the sample it pushes: \<^verbatim>\<open>timeInPeriod\<close>,
  \<^verbatim>\<open>transitCenter\<close>, \<^verbatim>\<open>durationDays / 2\<close> and \<^verbatim>\<open>distFromCenter\<close>.
\<close>

definition timeInPeriod :: "real \<Rightarrow> LightCurveSample \<Rightarrow> number" where
  "timeInPeriod period s = js_rem (time s) (Fin period)"

definition transitCenter :: "real \<Rightarrow> number" where
  "transitCenter period = js_div (Fin period) (Fin 2)"

definition halfDuration :: "real \<Rightarrow> number" where
  "halfDuration durationHours = js_div (js_div (Fin durationHours) (Fin 24)) (Fin 2)"

definition distFromCenter :: "real \<Rightarrow> LightCurveSample \<Rightarrow> number" where
  "distFromCenter period s = Math_abs (timeInPeriod period s - transitCenter period)"

text \<open>
  Two states of the generator: one that always returns the same value, and one that returns
  0 for its first 200 calls and one half afterwards.
\<close>

definition constant_draws :: "real \<Rightarrow> rng" where
  "constant_draws c = (\<lambda>k. c)"

definition step_draws :: rng where
  "step_draws = (\<lambda>k. if k < 200 then 0 else 1 / 2)"

text \<open>
  Two calls with the same arguments, one after the other: the second call finds the
  generator where the first call left it.
\<close>

definition twice :: "real \<Rightarrow> real \<Rightarrow> real \<Rightarrow> rng \<Rightarrow> LightCurveSample list \<times> LightCurveSample list" where
  "twice period depth durationHours g =
    (case simulateLightCurve period depth durationHours g of
       (first, g1) \<Rightarrow>
         (case simulateLightCurve period depth durationHours g1 of
            (second, g2) \<Rightarrow> (first, second)))"

section \<open>The loops as maps\<close>

lemma path_loop_map:
  "path_loop elements points j path = path @ map (orbitPoint elements points) [j..points]"
proof (induction elements points j path rule: path_loop.induct)
  case (1 elements points j path)
  show ?case
  proof (cases "j \<le> points")
    case True
    then have "[j..points] = j # [j + 1..points]"
      by (simp add: upto_rec1)
    with True "1.IH" show ?thesis
      by (subst path_loop.simps) simp
  next
    case False
    then show ?thesis
      by (subst path_loop.simps) simp
  qed
qed

lemma calculateOrbitPath_map:
  "calculateOrbitPath elements points = map (orbitPoint elements points) [0..points]"
  unfolding calculateOrbitPath_def by (simp only: path_loop_map append_Nil)

lemma lc_loop_map:
  "lc_loop period depth durationHours k data g =
     (data @ map (\<lambda>m. lightCurveStep period depth durationHours m (Fin (g (m - k)))) [k..<totalPoints],
      (\<lambda>m. g (m + (totalPoints - k))))"
proof (induction period depth durationHours k data g rule: lc_loop.induct)
  case (1 period depth durationHours k data g)
  show ?case
  proof (cases "k < totalPoints")
    case True
    have r: "Math_random g = (Fin (g 0), (\<lambda>m. g (Suc m)))"
      by (simp add: Math_random_def)
    have u: "[k..<totalPoints] = k # [Suc k..<totalPoints]"
      using True by (simp add: upt_conv_Cons)
    have m: "map (\<lambda>m. lightCurveStep period depth durationHours m (Fin (g (Suc (m - Suc k))))) [Suc k..<totalPoints]
           = map (\<lambda>m. lightCurveStep period depth durationHours m (Fin (g (m - k)))) [Suc k..<totalPoints]"
      by (rule map_cong) (auto simp: Suc_diff_Suc)
    have s: "(\<lambda>m. g (Suc (m + (totalPoints - Suc k)))) = (\<lambda>m. g (m + (totalPoints - k)))"
      using True by (auto simp: fun_eq_iff Suc_diff_Suc)
    have "lc_loop period depth durationHours k data g =
          lc_loop period depth durationHours (Suc k)
            (data @ [lightCurveStep period depth durationHours k (Fin (g 0))]) (\<lambda>m. g (Suc m))"
      using True by (subst lc_loop.simps) (simp add: r)
    also have "\<dots> =
          ((data @ [lightCurveStep period depth durationHours k (Fin (g 0))]) @
            map (\<lambda>m. lightCurveStep period depth durationHours m (Fin (g (Suc (m - Suc k)))))
              [Suc k..<totalPoints],
           (\<lambda>m. g (Suc (m + (totalPoints - Suc k)))))"
      by (rule "1.IH" [OF True r [symmetric]])
    also have "\<dots> =
          (data @ map (\<lambda>m. lightCurveStep period depth durationHours m (Fin (g (m - k))))
             [k..<totalPoints],
           (\<lambda>m. g (m + (totalPoints - k))))"
      by (simp only: m s u) simp
    finally show ?thesis .
  next
    case False
    then show ?thesis
      by (subst lc_loop.simps) simp
  qed
qed

lemma simulateLightCurve_map:
  "simulateLightCurve period depth durationHours g =
     (map (\<lambda>k. lightCurveStep period depth durationHours k (Fin (g k))) [0..<totalPoints],
      (\<lambda>k. g (k + totalPoints)))"
  unfolding simulateLightCurve_def by (simp only: lc_loop_map append_Nil diff_zero)


section \<open>Auxiliary facts\<close>

lemma heliocentric_Fin:
  "heliocentric (Fin wRad) (Fin iRad) (Fin omRad) (Fin P) (Fin Q) =
    (Fin ((cos wRad * cos omRad - sin wRad * sin omRad * cos iRad) * P +
          (- sin wRad * cos omRad - cos wRad * sin omRad * cos iRad) * Q),
     Fin ((cos wRad * sin omRad + sin wRad * cos omRad * cos iRad) * P +
          (- sin wRad * sin omRad + cos wRad * cos omRad * cos iRad) * Q),
     Fin ((sin wRad * sin iRad) * P + (cos wRad * sin iRad) * Q))"
  by (simp add: heliocentric_def Let_def)

lemma rotation_norm:
  fixes cw sw co so ci si P Q :: real
  assumes "cw * cw + sw * sw = 1" and "co * co + so * so = 1" and "ci * ci + si * si = 1"
  shows "((cw * co - sw * so * ci) * P + (- sw * co - cw * so * ci) * Q) *
         ((cw * co - sw * so * ci) * P + (- sw * co - cw * so * ci) * Q) +
         ((sw * si) * P + (cw * si) * Q) * ((sw * si) * P + (cw * si) * Q) +
         ((cw * so + sw * co * ci) * P + (- sw * so + cw * co * ci) * Q) *
         ((cw * so + sw * co * ci) * P + (- sw * so + cw * co * ci) * Q) = P * P + Q * Q"
  using assms by algebra

lemma hd_upto: "(0::int) \<le> points \<Longrightarrow> hd [0..points] = 0"
  by (simp add: upto_rec1)

lemma last_upto: "(0::int) \<le> points \<Longrightarrow> last [0..points] = points"
  by (simp add: upto_rec2)

lemma orbitPoint_closed: "points \<noteq> 0 \<Longrightarrow> orbitPoint elements points 0 = orbitPoint elements points points"
  by (simp add: orbitPoint_def Let_def Math_PI_def)

lemma in_path: "p \<in> set (calculateOrbitPath elements points) \<Longrightarrow> \<exists>j. 0 \<le> j \<and> j \<le> points \<and> p = orbitPoint elements points j"
  by (auto simp: calculateOrbitPath_map)

lemma orbitPoint_circular:
  assumes "e elements = 0" and "points \<noteq> 0" and "0 < a elements"
  shows "distanceFromOrigin (orbitPoint elements points j) = Fin (a elements * 10)"
proof -
  define wRad where "wRad = w elements * (pi / 180)"
  define iRad where "iRad = i elements * (pi / 180)"
  define omRad where "omRad = om elements * (pi / 180)"
  define E where "E = real_of_int j / real_of_int points * 2 * pi"
  define P where "P = a elements * cos E"
  define Q where "Q = a elements * sin E"
  define x where "x = (cos wRad * cos omRad - sin wRad * sin omRad * cos iRad) * P +
                      (- sin wRad * cos omRad - cos wRad * sin omRad * cos iRad) * Q"
  define y where "y = (cos wRad * sin omRad + sin wRad * cos omRad * cos iRad) * P +
                      (- sin wRad * sin omRad + cos wRad * cos omRad * cos iRad) * Q"
  define z where "z = (sin wRad * sin iRad) * P + (cos wRad * sin iRad) * Q"
  have h: "heliocentric (Fin wRad) (Fin iRad) (Fin omRad) (Fin P) (Fin Q) = (Fin x, Fin y, Fin z)"
    unfolding heliocentric_Fin x_def y_def z_def ..
  have op: "orbitPoint elements points j = (Fin (x * 10), Fin (z * 10), Fin (- y * 10))"
    using assms(1,2) h
    by (simp add: orbitPoint_def Let_def Math_PI_def wRad_def iRad_def omRad_def E_def P_def Q_def)
  have norm: "x * x + z * z + y * y = P * P + Q * Q"
    unfolding x_def y_def z_def by (rule rotation_norm) simp_all
  have PQ: "P * P + Q * Q = a elements * a elements"
    unfolding P_def Q_def using sin_cos_squared_add3 [of E] by algebra
  have sq: "x * 10 * (x * 10) + z * 10 * (z * 10) + - y * 10 * (- y * 10) =
            (a elements * 10) * (a elements * 10)"
    using norm PQ by (simp add: algebra_simps)
  have "distanceFromOrigin (orbitPoint elements points j) =
        Math_sqrt (Fin ((a elements * 10) * (a elements * 10)))"
    unfolding op distanceFromOrigin.simps times_number.simps plus_number.simps sq ..
  also have "\<dots> = Fin (sqrt ((a elements * 10) * (a elements * 10)))"
  proof -
    have "\<not> (a elements * 10) * (a elements * 10) < 0"
      by (simp only: not_less zero_le_square)
    then show ?thesis
      by (simp only: Math_sqrt.simps if_False)
  qed
  also have "\<dots> = Fin (a elements * 10)"
    using assms(3) by (simp only: real_sqrt_abs2) simp
  finally show ?thesis .
qed

lemma ecc_sq: "0 \<le> (x::real) \<Longrightarrow> x < 1 \<Longrightarrow> \<not> 1 - x * x < 0"
proof -
  assume "0 \<le> x" and "x < 1"
  then have "x * x \<le> 1 * 1"
    by (intro mult_mono) simp_all
  then show ?thesis
    by simp
qed

lemma orbitPoint_finite:
  assumes "points \<noteq> 0" and "\<not> 1 - e elements * e elements < 0"
  shows "finite_point (orbitPoint elements points j)"
  using assms by (simp add: orbitPoint_def Let_def Math_PI_def heliocentric_def)

lemma number_not_less: "(x::number) \<le> y \<Longrightarrow> \<not> y < x"
  by (cases x; cases y) simp_all

lemma step_time:
  "time (lightCurveStep period depth durationHours k u) = Fin (real k / 200 * (period * 2))"
  by (simp add: lightCurveStep_def Let_def totalPoints_def)

lemma step_flux:
  "flux (lightCurveStep period depth durationHours k u) =
     (let s = lightCurveStep period depth durationHours k u in
      (if distFromCenter period s < halfDuration durationHours
       then Fin 1 - Fin depth +
            js_div (distFromCenter period s) (halfDuration durationHours) * (Fin depth * Fin 0.1)
       else Fin 1) + (u - Fin 0.5) * Fin 0.0005)"
  unfolding Let_def distFromCenter_def timeInPeriod_def transitCenter_def halfDuration_def step_time
  by (simp add: lightCurveStep_def Let_def totalPoints_def)

lemma nth_data:
  "k < 200 \<Longrightarrow> fst (simulateLightCurve period depth durationHours g) ! k =
     lightCurveStep period depth durationHours k (Fin (g k))"
  by (simp add: simulateLightCurve_map totalPoints_def)

lemma length_data:
  "length (fst (simulateLightCurve period depth durationHours g)) = 200"
  by (simp add: simulateLightCurve_map totalPoints_def)

lemma jitter_bound: "0 \<le> u \<Longrightarrow> u < 1 \<Longrightarrow> \<bar>(u - 0.5) * 0.0005\<bar> \<le> (0.00025::real)"
  by (auto simp: abs_if)

lemma orbitPoint_in_path:
  "0 \<le> j \<Longrightarrow> j \<le> points \<Longrightarrow> orbitPoint elements points j \<in> set (calculateOrbitPath elements points)"
  by (simp add: calculateOrbitPath_map)

lemma unitCircle_start: "orbitPoint unitCircle 4 0 = (Fin 10, Fin 0, Fin 0)"
  by (simp add: orbitPoint_def Let_def Math_PI_def heliocentric_def unitCircle_def)

lemma path_ends:
  assumes "1 \<le> points"
  shows "hd (calculateOrbitPath elements points) = orbitPoint elements points 0"
    and "last (calculateOrbitPath elements points) = orbitPoint elements points points"
proof -
  from assms have ne: "[0..points] \<noteq> []" and p: "0 \<le> points"
    by simp_all
  show "hd (calculateOrbitPath elements points) = orbitPoint elements points 0"
    using ne by (simp add: calculateOrbitPath_map hd_map hd_upto [OF p])
  show "last (calculateOrbitPath elements points) = orbitPoint elements points points"
    using ne by (simp add: calculateOrbitPath_map last_map last_upto [OF p])
qed

lemma orbitPoint_NaN:
  "1 - e elements * e elements < 0 \<Longrightarrow> orbitPoint elements points j = (NaN, NaN, NaN)"
  by (cases "points = 0") (simp_all add: orbitPoint_def Let_def Math_PI_def heliocentric_def)

lemma point_eq_refl: "finite_point p \<Longrightarrow> point_eq p p"
proof (cases p)
  case (fields x y z)
  assume "finite_point p"
  with fields show ?thesis
    by (cases x; cases y; cases z) simp_all
qed

lemma step_flux_real:
  "\<exists>b. \<forall>u. flux (lightCurveStep period depth durationHours k (Fin u)) = Fin (b + (u - 0.5) * 0.0005)"
proof (cases "distFromCenter period (lightCurveStep period depth durationHours k (Fin 0)) < halfDuration durationHours")
  case True
  then show ?thesis
    unfolding distFromCenter_def timeInPeriod_def transitCenter_def halfDuration_def step_time step_flux Let_def
    by (cases "period = 0") (auto split: if_splits)
next
  case False
  then show ?thesis
    unfolding distFromCenter_def timeInPeriod_def transitCenter_def halfDuration_def step_time step_flux Let_def
    by (cases "period = 0") (auto split: if_splits)
qed

section \<open>Properties of the orbit path\<close>

text \<open>
  C2: for every record of orbital elements and every integer \<open>points \<ge> 1\<close>, the path has
  exactly \<open>points + 1\<close> points.
\<close>

theorem calculateOrbitPath_length:
  "1 \<le> points \<Longrightarrow> int (length (calculateOrbitPath elements points)) = points + 1"
  by (simp add: calculateOrbitPath_map)

theorem calculateOrbitPath_length_witness:
  "(1::int) \<le> 100 \<and> int (length (calculateOrbitPath earthOrbit 100)) = 100 + 1"
  using calculateOrbitPath_length [of 100 earthOrbit] by simp

text \<open>
  C3: for all angles \<open>wRad\<close>, \<open>iRad\<close>, \<open>omRad\<close> in radians and every perifocal pair
  \<open>(P, Q)\<close>, the expressions for \<open>x\<close>, \<open>y\<close>, \<open>z\<close> that the source writes out are the
  3-1-3 Euler composition (by \<open>wRad\<close> about the third axis, then by \<open>iRad\<close> about the first,
  then by \<open>omRad\<close> about the third) applied to the vector \<open>(P, Q, 0)\<close>.
\<close>

theorem heliocentric_is_euler313:
  "heliocentric (Fin wRad) (Fin iRad) (Fin omRad) (Fin P) (Fin Q) =
     fin3 (euler313 wRad iRad omRad (P, Q, 0))"
  unfolding heliocentric_Fin euler313_def
  by (simp add: algebra_simps)

text \<open>
  C4, as the specification states it, holds the first and the last point numerically equal
  for every record of orbital elements. When \<open>1 - e\<^sup>2\<close> is negative (an eccentricity
  above 1) its square root is \<open>NaN\<close>, every coordinate of every point is \<open>NaN\<close>, and the
  first point is not numerically equal to the last.
\<close>

theorem nan_path_not_closed:
  "\<not> point_eq (hd (calculateOrbitPath hyperbola 4)) (last (calculateOrbitPath hyperbola 4))"
proof -
  have "1 - e hyperbola * e hyperbola < 0"
    by (simp add: hyperbola_def)
  then have "orbitPoint hyperbola 4 0 = (NaN, NaN, NaN)"
    and "orbitPoint hyperbola 4 4 = (NaN, NaN, NaN)"
    by (rule orbitPoint_NaN)+
  then show ?thesis
    by (simp add: path_ends)
qed

text \<open>
  C4, amended: for every record with \<open>1 - e\<^sup>2 \<ge> 0\<close> and every \<open>points \<ge> 1\<close>, the first
  point of the path is the one of step \<open>j = 0\<close>, the last point is the one of step
  \<open>j = points\<close>, and the two are numerically equal, the anomaly being 0 for the one and
  \<open>2\<pi>\<close> for the other.
\<close>

theorem closed_curve_for_ellipse:
  assumes "1 \<le> points" and "0 \<le> 1 - e elements * e elements"
  shows "hd (calculateOrbitPath elements points) = orbitPoint elements points 0 \<and>
         last (calculateOrbitPath elements points) = orbitPoint elements points points \<and>
         point_eq (hd (calculateOrbitPath elements points)) (last (calculateOrbitPath elements points))"
proof -
  from assms have nz: "points \<noteq> 0" and sq: "\<not> 1 - e elements * e elements < 0"
    by simp_all
  have "finite_point (orbitPoint elements points 0)"
    using nz sq by (rule orbitPoint_finite)
  then have "point_eq (orbitPoint elements points 0) (orbitPoint elements points 0)"
    by (rule point_eq_refl)
  then have "point_eq (orbitPoint elements points 0) (orbitPoint elements points points)"
    using orbitPoint_closed [OF nz, of elements] by simp
  then show ?thesis
    by (simp add: path_ends [OF assms(1)])
qed

theorem closed_curve_for_ellipse_witness:
  "(1::int) \<le> 4 \<and> 0 \<le> 1 - e unitCircle * e unitCircle \<and>
   hd (calculateOrbitPath unitCircle 4) = (Fin 10, Fin 0, Fin 0) \<and>
   point_eq (hd (calculateOrbitPath unitCircle 4)) (last (calculateOrbitPath unitCircle 4))"
proof -
  have h: "(1::int) \<le> 4" and q: "0 \<le> 1 - e unitCircle * e unitCircle"
    by (simp_all add: unitCircle_def)
  note closed = closed_curve_for_ellipse [OF h q]
  have first: "hd (calculateOrbitPath unitCircle 4) = (Fin 10, Fin 0, Fin 0)"
    using closed [THEN conjunct1] by (simp only: unitCircle_start)
  from h q first closed [THEN conjunct2, THEN conjunct2] show ?thesis
    by blast
qed

text \<open>
  C5: when \<open>e = 0\<close> and \<open>a > 0\<close>, for all angles and every \<open>points \<ge> 1\<close>, every point of
  the path lies at distance \<open>a \<cdot> 10\<close> from the origin.
\<close>

theorem circular_orbit_distance:
  assumes "e elements = 0" and "0 < a elements" and "1 \<le> points"
  shows "\<forall>p \<in> set (calculateOrbitPath elements points). distanceFromOrigin p = Fin (a elements * 10)"
proof
  fix p
  assume "p \<in> set (calculateOrbitPath elements points)"
  then obtain j where "p = orbitPoint elements points j"
    using in_path by blast
  moreover from assms(3) have "points \<noteq> 0"
    by simp
  ultimately show "distanceFromOrigin p = Fin (a elements * 10)"
    using assms(1,2) by (simp add: orbitPoint_circular)
qed

theorem circular_orbit_distance_witness:
  "e unitCircle = 0 \<and> 0 < a unitCircle \<and> (1::int) \<le> 4 \<and>
   (Fin 10, Fin 0, Fin 0) \<in> set (calculateOrbitPath unitCircle 4) \<and>
   distanceFromOrigin (Fin 10, Fin 0, Fin 0) = Fin 10"
proof -
  have h: "e unitCircle = 0" "0 < a unitCircle" "(1::int) \<le> 4"
    by (simp_all add: unitCircle_def)
  have m: "(Fin 10, Fin 0, Fin 0) \<in> set (calculateOrbitPath unitCircle 4)"
    using orbitPoint_in_path [of 0 4 unitCircle] by (simp add: unitCircle_start)
  have "distanceFromOrigin (Fin 10, Fin 0, Fin 0) = Fin (a unitCircle * 10)"
    using circular_orbit_distance [OF h] m by blast
  then show ?thesis
    using h m by (simp add: unitCircle_def)
qed

text \<open>
  C9: when \<open>points \<ge> 1\<close> and \<open>0 \<le> e < 1\<close>, the arithmetic of the path is defined at every
  step: the division \<open>j / points\<close> and the square root of \<open>1 - e\<^sup>2\<close> have real results, and no
  coordinate of any point is \<open>NaN\<close>. The bound on \<open>points\<close> cannot be lowered to 0: there
  the division is \<open>0 / 0\<close>, and the path is the single triple of \<open>NaN\<close>.
\<close>

theorem calculateOrbitPath_well_defined:
  "(1 \<le> points \<and> 0 \<le> e elements \<and> e elements < 1 \<longrightarrow>
      (\<forall>j \<in> set [0..points]. js_div (Fin (of_int j)) (Fin (of_int points)) \<noteq> NaN) \<and>
      Math_sqrt (Fin 1 - Fin (e elements) * Fin (e elements)) \<noteq> NaN \<and>
      (\<forall>p \<in> set (calculateOrbitPath elements points). finite_point p)) \<and>
   js_div (Fin (of_int 0)) (Fin (of_int 0)) = NaN \<and>
   calculateOrbitPath elements 0 = [(NaN, NaN, NaN)]"
proof -
  have zero: "calculateOrbitPath elements 0 = [(NaN, NaN, NaN)]"
    by (simp add: calculateOrbitPath_map orbitPoint_def Let_def heliocentric_def Math_PI_def)
  have ok: "(\<forall>j \<in> set [0..points]. js_div (Fin (of_int j)) (Fin (of_int points)) \<noteq> NaN) \<and>
      Math_sqrt (Fin 1 - Fin (e elements) * Fin (e elements)) \<noteq> NaN \<and>
      (\<forall>p \<in> set (calculateOrbitPath elements points). finite_point p)"
    if "1 \<le> points" and "0 \<le> e elements" and "e elements < 1"
  proof -
    from that(1) have nz: "points \<noteq> 0"
      by simp
    from that(2,3) have sq: "\<not> 1 - e elements * e elements < 0"
      by (rule ecc_sq)
    have "finite_point p" if "p \<in> set (calculateOrbitPath elements points)" for p
      using in_path [OF that] orbitPoint_finite [OF nz sq] by blast
    then show ?thesis
      using nz sq by simp
  qed
  show ?thesis
    using zero ok by simp
qed

theorem calculateOrbitPath_well_defined_witness:
  "(1::int) \<le> 100 \<and> 0 \<le> e earthOrbit \<and> e earthOrbit < 1 \<and>
   (50::int) \<in> set [0..100] \<and>
   js_div (Fin (of_int 50)) (Fin (of_int 100)) \<noteq> NaN \<and>
   Math_sqrt (Fin 1 - Fin (e earthOrbit) * Fin (e earthOrbit)) \<noteq> NaN \<and>
   orbitPoint earthOrbit 100 50 \<in> set (calculateOrbitPath earthOrbit 100) \<and>
   finite_point (orbitPoint earthOrbit 100 50) \<and>
   calculateOrbitPath earthOrbit 0 = [(NaN, NaN, NaN)]"
proof -
  have h: "(1::int) \<le> 100 \<and> 0 \<le> e earthOrbit \<and> e earthOrbit < 1"
    by (simp add: earthOrbit_def)
  have k: "(50::int) \<in> set [0..100]"
    by simp
  have m: "orbitPoint earthOrbit 100 50 \<in> set (calculateOrbitPath earthOrbit 100)"
    by (rule orbitPoint_in_path) simp_all
  show ?thesis
    using calculateOrbitPath_well_defined [of 100 earthOrbit] h k m by blast
qed

section \<open>Properties of the light curve\<close>

text \<open>
  C1: for every \<open>period > 0\<close>, every depth and every duration, whatever the generator
  returns, the curve has exactly 200 samples; the time of sample \<open>k\<close> is
  \<open>(k / 200) \<cdot> 2 \<cdot> period\<close>; the times increase strictly; the first one is 0 and every one is
  strictly less than \<open>2 \<cdot> period\<close>.
\<close>

theorem simulateLightCurve_times:
  assumes "0 < period"
  shows "(let data = fst (simulateLightCurve period depth durationHours g) in
           length data = 200 \<and>
           (\<forall>k<200. time (data ! k) = Fin (real k / 200 * (2 * period))) \<and>
           (\<forall>j k. j < k \<and> k < 200 \<longrightarrow> time (data ! j) < time (data ! k)) \<and>
           time (data ! 0) = Fin 0 \<and>
           (\<forall>k<200. time (data ! k) < Fin (2 * period)))"
proof -
  have mono: "time (fst (simulateLightCurve period depth durationHours g) ! j) <
              time (fst (simulateLightCurve period depth durationHours g) ! k)"
    if "j < k" and "k < 200" for j k
  proof -
    from that have "j < 200"
      by simp
    with that assms show ?thesis
      by (simp add: nth_data step_time divide_strict_right_mono)
  qed
  show ?thesis
    unfolding Let_def
    using assms mono by (simp add: length_data nth_data step_time)
qed

theorem simulateLightCurve_times_witness:
  "(0::real) < 7 / 2 \<and>
   length (fst (simulateLightCurve (7 / 2) 0.012 2.5 (constant_draws 0))) = 200 \<and>
   (50::nat) < 200 \<and>
   time (fst (simulateLightCurve (7 / 2) 0.012 2.5 (constant_draws 0)) ! 50) = Fin (7 / 4) \<and>
   (49::nat) < 50 \<and>
   time (fst (simulateLightCurve (7 / 2) 0.012 2.5 (constant_draws 0)) ! 49) <
   time (fst (simulateLightCurve (7 / 2) 0.012 2.5 (constant_draws 0)) ! 50) \<and>
   time (fst (simulateLightCurve (7 / 2) 0.012 2.5 (constant_draws 0)) ! 0) = Fin 0 \<and>
   time (fst (simulateLightCurve (7 / 2) 0.012 2.5 (constant_draws 0)) ! 50) < Fin 7"
proof -
  note times = simulateLightCurve_times [where period = "7 / 2" and depth = "0.012"
      and durationHours = "2.5" and g = "constant_draws 0", unfolded Let_def]
  have "time (fst (simulateLightCurve (7 / 2) 0.012 2.5 (constant_draws 0)) ! 49) <
        time (fst (simulateLightCurve (7 / 2) 0.012 2.5 (constant_draws 0)) ! 50)"
    using times by simp
  then show ?thesis
    using times by simp
qed

text \<open>
  C6: for \<open>period > 0\<close> and a duration \<open>> 0\<close>, a sample whose \<open>timeInPeriod\<close> equals
  \<open>period / 2\<close> has the flux \<open>1 - depth\<close> plus the jitter alone (the correction for the
  distance from the centre is 0), and the jitter of a value drawn from \<open>[0, 1)\<close> is at most
  0.00025 in absolute value: the flux is within 0.00025 of \<open>1 - depth\<close>.
\<close>

theorem flux_at_transit_center:
  assumes "0 < period" and "0 < durationHours" and "k < 200" and "0 \<le> g k" and "g k < 1"
    and "s = fst (simulateLightCurve period depth durationHours g) ! k"
    and "timeInPeriod period s = transitCenter period"
  shows "flux s = Fin (1 - depth + (g k - 0.5) * 0.0005) \<and>
         \<bar>(g k - 0.5) * 0.0005\<bar> \<le> 0.00025 \<and>
         Fin (1 - depth - 0.00025) \<le> flux s \<and> flux s \<le> Fin (1 - depth + 0.00025)"
proof -
  have s: "s = lightCurveStep period depth durationHours k (Fin (g k))"
    using assms by (simp add: nth_data)
  have c: "transitCenter period = Fin (period / 2)"
    by (simp add: transitCenter_def)
  have d: "distFromCenter period s = Fin 0"
    using assms(7) by (simp add: distFromCenter_def c)
  have h: "halfDuration durationHours = Fin (durationHours / 24 / 2)"
    by (simp add: halfDuration_def)
  have f: "flux s = Fin (1 - depth + (g k - 0.5) * 0.0005)"
    using assms(1,2) d h unfolding s
    by (subst step_flux) (simp add: Let_def)
  have j: "\<bar>(g k - 0.5) * 0.0005\<bar> \<le> 0.00025"
    using assms by (intro jitter_bound)
  have r: "1 - depth - 0.00025 \<le> 1 - depth + (g k - 0.5) * 0.0005 \<and>
           1 - depth + (g k - 0.5) * 0.0005 \<le> 1 - depth + 0.00025"
    using assms(4,5) by (simp add: field_simps)
  show ?thesis
    unfolding f less_eq_number.simps using j r by blast
qed

theorem flux_at_transit_center_witness:
  "(0::real) < 3.5 \<and> (0::real) < 2.5 \<and> (50::nat) < 200 \<and>
   0 \<le> constant_draws 0.5 50 \<and> constant_draws 0.5 50 < 1 \<and>
   timeInPeriod 3.5 (fst (simulateLightCurve 3.5 0.012 2.5 (constant_draws 0.5)) ! 50) = transitCenter 3.5 \<and>
   flux (fst (simulateLightCurve 3.5 0.012 2.5 (constant_draws 0.5)) ! 50) = Fin 0.988"
proof -
  have t: "timeInPeriod 3.5 (fst (simulateLightCurve 3.5 0.012 2.5 (constant_draws 0.5)) ! 50) = transitCenter 3.5"
    by (simp add: nth_data timeInPeriod_def transitCenter_def step_time trunc_def)
  show ?thesis
    using flux_at_transit_center [where period = "3.5" and durationHours = "2.5" and k = 50
        and g = "constant_draws 0.5" and depth = "0.012", OF _ _ _ _ _ refl t] t
    by (simp add: constant_draws_def)
qed

text \<open>
  C7: for \<open>period > 0\<close> and a duration \<open>> 0\<close>, a sample outside the transit window (its
  distance from the centre is at least half the duration) has the flux 1 plus the jitter
  \<open>(u - 0.5) \<cdot> 0.0005\<close> of the value \<open>u\<close> drawn for it, an affine image of the draw that lies
  in \<open>[-0.00025, 0.00025]\<close> for \<open>u\<close> in \<open>[0, 1)\<close>: the flux is within 0.00025 of 1.
\<close>

theorem flux_outside_transit:
  assumes "0 < period" and "0 < durationHours" and "k < 200" and "0 \<le> g k" and "g k < 1"
    and "s = fst (simulateLightCurve period depth durationHours g) ! k"
    and "halfDuration durationHours \<le> distFromCenter period s"
  shows "flux s = Fin (1 + (g k - 0.5) * 0.0005) \<and>
         \<bar>(g k - 0.5) * 0.0005\<bar> \<le> 0.00025 \<and>
         Fin (1 - 0.00025) \<le> flux s \<and> flux s \<le> Fin (1 + 0.00025)"
proof -
  have s: "s = lightCurveStep period depth durationHours k (Fin (g k))"
    using assms by (simp add: nth_data)
  have out: "\<not> distFromCenter period s < halfDuration durationHours"
    using assms(7) by (rule number_not_less)
  have f: "flux s = Fin (1 + (g k - 0.5) * 0.0005)"
    using out unfolding s
    by (subst step_flux) (simp add: Let_def)
  have j: "\<bar>(g k - 0.5) * 0.0005\<bar> \<le> 0.00025"
    using assms by (intro jitter_bound)
  have r: "1 - 0.00025 \<le> 1 + (g k - 0.5) * 0.0005 \<and>
           1 + (g k - 0.5) * 0.0005 \<le> 1 + (0.00025::real)"
    using assms(4,5) by (simp add: field_simps)
  show ?thesis
    unfolding f less_eq_number.simps using j r by blast
qed

theorem flux_outside_transit_witness:
  "(0::real) < 3.5 \<and> (0::real) < 2.5 \<and> (0::nat) < 200 \<and>
   0 \<le> constant_draws 0.5 0 \<and> constant_draws 0.5 0 < 1 \<and>
   halfDuration 2.5 \<le> distFromCenter 3.5 (fst (simulateLightCurve 3.5 0.012 2.5 (constant_draws 0.5)) ! 0) \<and>
   flux (fst (simulateLightCurve 3.5 0.012 2.5 (constant_draws 0.5)) ! 0) = Fin 1"
proof -
  have t: "halfDuration 2.5 \<le> distFromCenter 3.5 (fst (simulateLightCurve 3.5 0.012 2.5 (constant_draws 0.5)) ! 0)"
    by (simp add: nth_data distFromCenter_def halfDuration_def timeInPeriod_def transitCenter_def step_time trunc_def)
  show ?thesis
    using flux_outside_transit [where period = "3.5" and durationHours = "2.5" and k = 0
        and g = "constant_draws 0.5" and depth = "0.012", OF _ _ _ _ _ refl t] t
    by (simp add: constant_draws_def)
qed

text \<open>
  C10: the test of the transit window is strict. A sample whose distance from the transit
  centre is exactly half the duration is out of transit: its flux is 1 plus the jitter, not
  the reduced flux of a transit.
\<close>

theorem transit_window_strict:
  assumes "k < 200"
    and "s = fst (simulateLightCurve period depth durationHours g) ! k"
    and "distFromCenter period s = halfDuration durationHours"
  shows "flux s = Fin (1 + (g k - 0.5) * 0.0005)"
proof -
  have s: "s = lightCurveStep period depth durationHours k (Fin (g k))"
    using assms by (simp add: nth_data)
  have h: "halfDuration durationHours = Fin (durationHours / 24 / 2)"
    by (simp add: halfDuration_def)
  have out: "\<not> distFromCenter period s < halfDuration durationHours"
    unfolding assms(3) h by simp
  show ?thesis
    using out unfolding s
    by (subst step_flux) (simp add: Let_def)
qed

theorem transit_window_strict_witness:
  "(25::nat) < 200 \<and>
   distFromCenter 4 (fst (simulateLightCurve 4 0.5 48 (constant_draws 0.5)) ! 25) = halfDuration 48 \<and>
   flux (fst (simulateLightCurve 4 0.5 48 (constant_draws 0.5)) ! 25) = Fin 1 \<and>
   flux (fst (simulateLightCurve 4 0.5 48 (constant_draws 0.5)) ! 25) \<noteq> Fin (1 - 0.5 + 1 * (0.5 * 0.1))"
proof -
  have t: "distFromCenter 4 (fst (simulateLightCurve 4 0.5 48 (constant_draws 0.5)) ! 25) = halfDuration 48"
    by (simp add: nth_data distFromCenter_def halfDuration_def timeInPeriod_def transitCenter_def step_time trunc_def)
  show ?thesis
    using transit_window_strict [where period = 4 and durationHours = 48 and k = 25
        and g = "constant_draws 0.5" and depth = "0.5", OF _ refl t] t
    by (simp add: constant_draws_def)
qed

text \<open>
  C8, as the specification states it, asks for a random source that is passed in or seeded,
  so that two calls with the same parameters and the same seed return the same samples.
  The function takes the period, the depth and the duration and nothing else, and draws from
  the generator of the runtime: two calls with the same arguments, one after the other,
  return different samples as soon as the generator hands the second call other values than
  the first.
\<close>

theorem repeated_call_differs:
  "fst (twice 1 0 1 step_draws) \<noteq> snd (twice 1 0 1 step_draws)"
proof
  assume "fst (twice 1 0 1 step_draws) = snd (twice 1 0 1 step_draws)"
  then have "flux (fst (twice 1 0 1 step_draws) ! 0) = flux (snd (twice 1 0 1 step_draws) ! 0)"
    by simp
  then show False
    by (simp add: twice_def simulateLightCurve_map totalPoints_def step_flux step_draws_def
        distFromCenter_def halfDuration_def timeInPeriod_def transitCenter_def step_time trunc_def)
qed

text \<open>
  C8, amended: the curve is determined by the parameters and by the 200 values that the
  generator of the runtime returns during the call. For the same parameters, two states of
  the generator give identical curves exactly when they return the same first 200 values;
  they always give 200 samples with the same times, and the flux of sample \<open>k\<close> is in both
  a common real base value plus the jitter \<open>(u - 0.5) \<cdot> 0.0005\<close> of the value \<open>u\<close> drawn for
  it.
\<close>

theorem simulateLightCurve_jitter_only:
  "(let first = fst (simulateLightCurve period depth durationHours g);
        second = fst (simulateLightCurve period depth durationHours g')
    in (first = second) = (map g [0..<200] = map g' [0..<200]) \<and>
       length first = 200 \<and> length second = 200 \<and>
       (\<forall>k<200. time (first ! k) = time (second ! k) \<and>
          (\<exists>base. flux (first ! k) = Fin (base + (g k - 0.5) * 0.0005) \<and>
                  flux (second ! k) = Fin (base + (g' k - 0.5) * 0.0005))))"
proof -
  let ?first = "fst (simulateLightCurve period depth durationHours g)"
  let ?second = "fst (simulateLightCurve period depth durationHours g')"
  have parts: "\<exists>base. flux (?first ! k) = Fin (base + (g k - 0.5) * 0.0005) \<and>
                     flux (?second ! k) = Fin (base + (g' k - 0.5) * 0.0005)"
    if "k < 200" for k
    using that step_flux_real [of period depth durationHours k] by (simp add: nth_data) blast
  have same: "?first = ?second" if "map g [0..<200] = map g' [0..<200]"
    using that by (simp add: simulateLightCurve_map totalPoints_def)
  have draws: "map g [0..<200] = map g' [0..<200]" if eq: "?first = ?second"
  proof -
    have "g k = g' k" if "k < 200" for k
    proof -
      from parts [OF that] obtain base where
        "flux (?first ! k) = Fin (base + (g k - 0.5) * 0.0005)" and
        "flux (?second ! k) = Fin (base + (g' k - 0.5) * 0.0005)"
        by blast
      with eq have "base + (g k - 0.5) * 0.0005 = base + (g' k - 0.5) * 0.0005"
        by simp
      then show ?thesis
        by simp
    qed
    then show ?thesis
      by simp
  qed
  have times: "time (?first ! k) = time (?second ! k)" if "k < 200" for k
    using that by (simp add: nth_data step_time)
  show ?thesis
    unfolding Let_def using same draws parts times by (auto simp: length_data)
qed

theorem simulateLightCurve_jitter_only_witness:
  "map step_draws [0..<200] = map (constant_draws 0) [0..<200] \<and>
   step_draws \<noteq> constant_draws 0 \<and>
   fst (simulateLightCurve 1 0 1 step_draws) = fst (simulateLightCurve 1 0 1 (constant_draws 0)) \<and>
   (0::nat) < 200 \<and>
   time (fst (simulateLightCurve 1 0 1 step_draws) ! 0) =
   time (fst (simulateLightCurve 1 0 1 (constant_draws 0)) ! 0)"
proof -
  have same: "map step_draws [0..<200] = map (constant_draws 0) [0..<200]"
    by (simp add: step_draws_def constant_draws_def)
  have "step_draws 200 \<noteq> constant_draws 0 200"
    by (simp add: step_draws_def constant_draws_def)
  then have differ: "step_draws \<noteq> constant_draws 0"
    by metis
  show ?thesis
    using simulateLightCurve_jitter_only [of 1 0 1 step_draws "constant_draws 0"] same differ
    unfolding Let_def by simp
qed

end
